theory Spec2Isabelle
  imports Main
begin

section \<open>The element tree a component returns\<close>

text \<open>
  A JSX expression evaluates to a tree of elements. An element has a tag, a list of
  props in the order they are written, and a list of children; a run of text between two
  tags is a text child. A prop written \<^verbatim>\<open>name="..."\<close> holds a string; a prop written
  \<^verbatim>\<open>name={f}\<close> may hold a function, which is how an event handler is attached.
\<close>

datatype prop_value = StrVal string | FunVal string

datatype node =
    Element string "(string \<times> prop_value) list" "node list"
  | Text string

text \<open>A call either returns a value or throws; a throw is the left summand.\<close>

datatype error = Thrown string

subsection \<open>Reading a tree\<close>

fun tag_of :: "node \<Rightarrow> string option" where
  "tag_of (Element t ps cs) = Some t"
| "tag_of (Text s) = None"

fun props_of :: "node \<Rightarrow> (string \<times> prop_value) list" where
  "props_of (Element t ps cs) = ps"
| "props_of (Text s) = []"

fun children_of :: "node \<Rightarrow> node list" where
  "children_of (Element t ps cs) = cs"
| "children_of (Text s) = []"

fun is_element :: "node \<Rightarrow> bool" where
  "is_element (Element t ps cs) = True"
| "is_element (Text s) = False"

text \<open>All nodes of a tree, the root first, in document order.\<close>

fun nodes :: "node \<Rightarrow> node list" where
  "nodes (Text s) = [Text s]"
| "nodes (Element t ps cs) = Element t ps cs # concat (map nodes cs)"

text \<open>The text of a node: the text children below it, concatenated in document order.\<close>

fun text_content :: "node \<Rightarrow> string" where
  "text_content (Text s) = s"
| "text_content (Element t ps cs) = concat (map text_content cs)"

definition heading_tags :: "string list" where
  "heading_tags = [''h1'', ''h2'', ''h3'', ''h4'', ''h5'', ''h6'']"

fun is_heading :: "node \<Rightarrow> bool" where
  "is_heading (Element t ps cs) = (t \<in> set heading_tags)"
| "is_heading (Text s) = False"

fun is_paragraph :: "node \<Rightarrow> bool" where
  "is_paragraph (Element t ps cs) = (t = ''p'')"
| "is_paragraph (Text s) = False"

text \<open>The value of the class attribute, when the node has one and it is a string.\<close>

fun class_name :: "node \<Rightarrow> string option" where
  "class_name (Element t ps cs) =
     (case map_of ps ''className'' of
        Some (StrVal s) \<Rightarrow> Some s
      | Some (FunVal f) \<Rightarrow> None
      | None \<Rightarrow> None)"
| "class_name (Text s) = None"

text \<open>The class attribute is a list of class names separated by spaces.\<close>

fun tokens_from :: "string \<Rightarrow> string \<Rightarrow> string list" where
  "tokens_from cur [] = (if cur = [] then [] else [cur])"
| "tokens_from cur (c # cs) =
     (if c = CHR '' ''
      then (if cur = [] then tokens_from [] cs else cur # tokens_from [] cs)
      else tokens_from (cur @ [c]) cs)"

definition class_tokens :: "node \<Rightarrow> string list" where
  "class_tokens n = (case class_name n of None \<Rightarrow> [] | Some s \<Rightarrow> tokens_from [] s)"

definition has_classes :: "string list \<Rightarrow> node \<Rightarrow> bool" where
  "has_classes want n = list_all (\<lambda>c. c \<in> set (class_tokens n)) want"

text \<open>
  A prop attaches an event handler when it is named like one (\<^verbatim>\<open>onClick\<close>,
  \<^verbatim>\<open>onChange\<close>, ...) or when it holds a function.
\<close>

fun is_event_handler :: "string \<times> prop_value \<Rightarrow> bool" where
  "is_event_handler (k, StrVal s) = (take 2 k = ''on'')"
| "is_event_handler (k, FunVal f) = True"

definition event_handlers :: "node \<Rightarrow> (string \<times> prop_value) list" where
  "event_handlers n = filter is_event_handler (props_of n)"

text \<open>Among siblings, some node satisfying \<open>P\<close> comes before some node satisfying \<open>Q\<close>.\<close>

fun sibling_before :: "(node \<Rightarrow> bool) \<Rightarrow> (node \<Rightarrow> bool) \<Rightarrow> node list \<Rightarrow> bool" where
  "sibling_before P Q [] = False"
| "sibling_before P Q (c # cs) = ((P c \<and> list_ex Q cs) \<or> sibling_before P Q cs)"

section \<open>The root view\<close>

text \<open>
  \<^verbatim>\<open>
  function App() {
    return (
      <div className="flex min-h-screen items-center justify-center bg-slate-50">
        <div className="text-center">
          <h1 className="text-4xl font-bold text-slate-900">React + Vite + TypeScript</h1>
          <p className="mt-4 text-slate-600">Ready to go!</p>
        </div>
      </div>
    );
  }
  \<close>
  The JSX expression of the \<^verbatim>\<open>return\<close>. White space between tags that contains a line
  break is not a child, so the outer element has one child and the inner one two.
\<close>

definition App_jsx :: node where
  "App_jsx =
     Element ''div''
       [(''className'', StrVal ''flex min-h-screen items-center justify-center bg-slate-50'')]
       [Element ''div'' [(''className'', StrVal ''text-center'')]
          [Element ''h1'' [(''className'', StrVal ''text-4xl font-bold text-slate-900'')]
             [Text ''React + Vite + TypeScript''],
           Element ''p'' [(''className'', StrVal ''mt-4 text-slate-600'')]
             [Text ''Ready to go!'']]]"

text \<open>
  The function itself, called in a world \<open>w\<close>: everything that can be observed from
  outside the call (the document, the console, the network, the state React keeps for
  the component). The body takes no parameter, reads nothing, calls no hook, and
  consists of the one \<^verbatim>\<open>return\<close>; with element creation building the element and
  nothing else, the call gives back the tree and the world it was given. The calls that
  create the elements are spelled out in \<open>App_with\<close> below.
\<close>

definition App :: "'w \<Rightarrow> (error + node) \<times> 'w" where
  "App w = (Inr App_jsx, w)"

subsection \<open>The calls the body makes\<close>

text \<open>
  The compiler turns each JSX element into a call of the element factory of the JSX
  runtime, which is not part of this repository. Arguments are evaluated before a call,
  so the body of \<^verbatim>\<open>App\<close> calls the factory four times, for the \<^verbatim>\<open>h1\<close>, the \<^verbatim>\<open>p\<close>, the
  inner \<^verbatim>\<open>div\<close> and the outer \<^verbatim>\<open>div\<close>, in this order, and returns what the last call
  returns. The factory is a parameter here: it gets the tag, the props and the children,
  runs in the world it is called in, and returns an element or throws, leaving a world
  behind.
\<close>

type_synonym 'w factory =
  "string \<Rightarrow> (string \<times> prop_value) list \<Rightarrow> node list \<Rightarrow> 'w \<Rightarrow> (error + node) \<times> 'w"

text \<open>
  The body of \<^verbatim>\<open>App\<close> over a factory \<open>jsx\<close>. A call that throws ends the body: the calls
  after it are not made, and the error is the outcome of \<^verbatim>\<open>App\<close>.
\<close>

definition App_with :: "'w factory \<Rightarrow> 'w \<Rightarrow> (error + node) \<times> 'w" where
  "App_with jsx w =
     (case jsx ''h1'' [(''className'', StrVal ''text-4xl font-bold text-slate-900'')]
             [Text ''React + Vite + TypeScript''] w of
        (Inl e, w1) \<Rightarrow> (Inl e, w1)
      | (Inr h, w1) \<Rightarrow>
     (case jsx ''p'' [(''className'', StrVal ''mt-4 text-slate-600'')]
             [Text ''Ready to go!''] w1 of
        (Inl e, w2) \<Rightarrow> (Inl e, w2)
      | (Inr p, w2) \<Rightarrow>
     (case jsx ''div'' [(''className'', StrVal ''text-center'')] [h, p] w2 of
        (Inl e, w3) \<Rightarrow> (Inl e, w3)
      | (Inr inner, w3) \<Rightarrow>
          jsx ''div''
            [(''className'',
              StrVal ''flex min-h-screen items-center justify-center bg-slate-50'')]
            [inner] w3)))"


text \<open>
  An instrumented factory, for following the calls: it builds the element and appends its
  tag to a log, which is the world.
\<close>

definition traced_element :: "(string list) factory" where
  "traced_element t ps cs log = (Inr (Element t ps cs), log @ [t])"

text \<open>A factory that throws when it is asked for a paragraph.\<close>

definition failing_element :: "'w factory" where
  "failing_element t ps cs w =
     (if t = ''p'' then (Inl (Thrown ''no paragraph''), w) else (Inr (Element t ps cs), w))"


section \<open>Properties\<close>

lemma nodes_App_jsx:
  "nodes App_jsx =
     [App_jsx,
      Element ''div'' [(''className'', StrVal ''text-center'')]
        [Element ''h1'' [(''className'', StrVal ''text-4xl font-bold text-slate-900'')]
           [Text ''React + Vite + TypeScript''],
         Element ''p'' [(''className'', StrVal ''mt-4 text-slate-600'')]
           [Text ''Ready to go!'']],
      Element ''h1'' [(''className'', StrVal ''text-4xl font-bold text-slate-900'')]
        [Text ''React + Vite + TypeScript''],
      Text ''React + Vite + TypeScript'',
      Element ''p'' [(''className'', StrVal ''mt-4 text-slate-600'')]
        [Text ''Ready to go!''],
      Text ''Ready to go!'']"
  by (simp add: App_jsx_def)

lemma headings_App_jsx:
  "filter is_heading (nodes App_jsx) =
     [Element ''h1'' [(''className'', StrVal ''text-4xl font-bold text-slate-900'')]
        [Text ''React + Vite + TypeScript'']]"
  unfolding nodes_App_jsx by (simp add: App_jsx_def heading_tags_def)

lemma paragraphs_App_jsx:
  "filter is_paragraph (nodes App_jsx) =
     [Element ''p'' [(''className'', StrVal ''mt-4 text-slate-600'')]
        [Text ''Ready to go!'']]"
  unfolding nodes_App_jsx by (simp add: App_jsx_def)

lemma heading_texts_App_jsx:
  "map text_content (filter is_heading (nodes App_jsx)) = [''React + Vite + TypeScript'']"
  unfolding headings_App_jsx by simp

lemma paragraph_texts_App_jsx:
  "map text_content (filter is_paragraph (nodes App_jsx)) = [''Ready to go!'']"
  unfolding paragraphs_App_jsx by simp

lemma elements_App_jsx:
  "filter is_element (nodes App_jsx) =
     [App_jsx,
      Element ''div'' [(''className'', StrVal ''text-center'')]
        [Element ''h1'' [(''className'', StrVal ''text-4xl font-bold text-slate-900'')]
           [Text ''React + Vite + TypeScript''],
         Element ''p'' [(''className'', StrVal ''mt-4 text-slate-600'')]
           [Text ''Ready to go!'']],
      Element ''h1'' [(''className'', StrVal ''text-4xl font-bold text-slate-900'')]
        [Text ''React + Vite + TypeScript''],
      Element ''p'' [(''className'', StrVal ''mt-4 text-slate-600'')]
        [Text ''Ready to go!'']]"
  unfolding nodes_App_jsx by (simp add: App_jsx_def)

subsection \<open>The body over a factory\<close>


lemma App_with_traced_element:
  "App_with traced_element log = (Inr App_jsx, log @ [''h1'', ''p'', ''div'', ''div''])"
  by (simp add: App_with_def traced_element_def App_jsx_def)

lemma App_with_failing_element:
  "App_with failing_element w = (Inl (Thrown ''no paragraph''), w)"
  by (simp add: App_with_def failing_element_def)










subsection \<open>The claims\<close>

text \<open>
  C1: every call of \<open>App\<close> returns a tree that contains a heading element whose text is
  exactly "React + Vite + TypeScript".
\<close>

theorem App_heading_text:
  "\<exists>t. fst (App w) = Inr t \<and>
       ''React + Vite + TypeScript'' \<in> set (map text_content (filter is_heading (nodes t)))"
proof -
  have "fst (App w) = Inr App_jsx"
    by (simp add: App_def)
  moreover have
    "''React + Vite + TypeScript'' \<in> set (map text_content (filter is_heading (nodes App_jsx)))"
    unfolding heading_texts_App_jsx by simp
  ultimately show ?thesis
    by (intro exI [of _ App_jsx] conjI)
qed

text \<open>
  C2: every call of \<open>App\<close> returns a tree that contains a paragraph element whose text is
  exactly "Ready to go!".
\<close>

theorem App_paragraph_text:
  "\<exists>t. fst (App w) = Inr t \<and>
       ''Ready to go!'' \<in> set (map text_content (filter is_paragraph (nodes t)))"
proof -
  have "fst (App w) = Inr App_jsx"
    by (simp add: App_def)
  moreover have
    "''Ready to go!'' \<in> set (map text_content (filter is_paragraph (nodes App_jsx)))"
    unfolding paragraph_texts_App_jsx by simp
  ultimately show ?thesis
    by (intro exI [of _ App_jsx] conjI)
qed



text \<open>
  C4: \<open>App\<close> returns one fixed tree, the same for every call: an outer container that fills
  the viewport height and centers its content (classes \<^verbatim>\<open>min-h-screen\<close>, \<^verbatim>\<open>flex\<close>,
  \<^verbatim>\<open>items-center\<close>, \<^verbatim>\<open>justify-center\<close>), whose only child is an inner block with centered
  text (class \<^verbatim>\<open>text-center\<close>), which holds a heading with the title string and a
  paragraph with the subtitle string.
\<close>

theorem App_fixed_nesting:
  "\<exists>outer inner h p ops ips.
     (\<forall>w'. fst (App (w' :: 'w)) = Inr outer) \<and>
     outer = Element ''div'' ops [inner] \<and>
     has_classes [''flex'', ''min-h-screen'', ''items-center'', ''justify-center''] outer \<and>
     inner = Element ''div'' ips [h, p] \<and>
     has_classes [''text-center''] inner \<and>
     is_heading h \<and> children_of h = [Text ''React + Vite + TypeScript''] \<and>
     is_paragraph p \<and> children_of p = [Text ''Ready to go!'']"
proof -
  let ?h = "Element ''h1'' [(''className'', StrVal ''text-4xl font-bold text-slate-900'')]
              [Text ''React + Vite + TypeScript'']"
  let ?p = "Element ''p'' [(''className'', StrVal ''mt-4 text-slate-600'')]
              [Text ''Ready to go!'']"
  let ?ips = "[(''className'', StrVal ''text-center'')]"
  let ?ops = "[(''className'',
                StrVal ''flex min-h-screen items-center justify-center bg-slate-50'')]"
  let ?inner = "Element ''div'' ?ips [?h, ?p]"
  have ret: "\<forall>w'. fst (App (w' :: 'w)) = Inr App_jsx"
    by (simp add: App_def)
  have shape: "App_jsx = Element ''div'' ?ops [?inner]"
    by (simp add: App_jsx_def)
  have outer_cls:
    "has_classes [''flex'', ''min-h-screen'', ''items-center'', ''justify-center''] App_jsx"
    by (simp add: App_jsx_def has_classes_def class_tokens_def)
  have inner_cls: "has_classes [''text-center''] ?inner"
    by (simp add: has_classes_def class_tokens_def)
  have h: "is_heading ?h \<and> children_of ?h = [Text ''React + Vite + TypeScript'']"
    by (simp add: heading_tags_def)
  have p: "is_paragraph ?p \<and> children_of ?p = [Text ''Ready to go!'']"
    by simp
  show ?thesis
    apply (rule exI [of _ App_jsx])
    apply (rule exI [of _ ?inner])
    apply (rule exI [of _ ?h])
    apply (rule exI [of _ ?p])
    apply (rule exI [of _ ?ops])
    apply (rule exI [of _ ?ips])
    apply (intro conjI)
            apply (rule ret)
           apply (rule shape)
          apply (rule outer_cls)
         apply (rule refl)
        apply (rule inner_cls)
       apply (rule h [THEN conjunct1])
      apply (rule h [THEN conjunct2])
     apply (rule p [THEN conjunct1])
    apply (rule p [THEN conjunct2])
    done
qed





text \<open>
  C7: on every call, the elements of the returned tree are, in document order, a
  \<^verbatim>\<open>div\<close>, a \<^verbatim>\<open>div\<close>, an \<^verbatim>\<open>h1\<close> and a \<^verbatim>\<open>p\<close>, and their class attributes are exactly the
  four fixed strings.
\<close>

theorem App_class_names:
  "\<exists>t. fst (App w) = Inr t \<and>
       map tag_of (filter is_element (nodes t)) =
         [Some ''div'', Some ''div'', Some ''h1'', Some ''p''] \<and>
       map class_name (filter is_element (nodes t)) =
         [Some ''flex min-h-screen items-center justify-center bg-slate-50'',
          Some ''text-center'',
          Some ''text-4xl font-bold text-slate-900'',
          Some ''mt-4 text-slate-600'']"
proof -
  have "fst (App w) = Inr App_jsx"
    by (simp add: App_def)
  moreover have "map tag_of (filter is_element (nodes App_jsx)) =
      [Some ''div'', Some ''div'', Some ''h1'', Some ''p'']"
    unfolding elements_App_jsx by (simp add: App_jsx_def)
  moreover have "map class_name (filter is_element (nodes App_jsx)) =
      [Some ''flex min-h-screen items-center justify-center bg-slate-50'',
       Some ''text-center'',
       Some ''text-4xl font-bold text-slate-900'',
       Some ''mt-4 text-slate-600'']"
    unfolding elements_App_jsx by (simp add: App_jsx_def)
  ultimately show ?thesis
    by (intro exI [of _ App_jsx] conjI)
qed

text \<open>
  C8: the tree returned by \<open>App\<close> has exactly one heading element and exactly one paragraph
  element, and among the children of the inner block (the only child of the root) the
  heading comes before the paragraph.
\<close>

theorem App_one_heading_one_paragraph:
  "\<exists>t ops ips cs.
     fst (App w) = Inr t \<and>
     length (filter is_heading (nodes t)) = 1 \<and>
     length (filter is_paragraph (nodes t)) = 1 \<and>
     t = Element ''div'' ops [Element ''div'' ips cs] \<and>
     sibling_before is_heading is_paragraph cs"
proof -
  let ?h = "Element ''h1'' [(''className'', StrVal ''text-4xl font-bold text-slate-900'')]
              [Text ''React + Vite + TypeScript'']"
  let ?p = "Element ''p'' [(''className'', StrVal ''mt-4 text-slate-600'')]
              [Text ''Ready to go!'']"
  let ?ips = "[(''className'', StrVal ''text-center'')]"
  let ?ops = "[(''className'',
                StrVal ''flex min-h-screen items-center justify-center bg-slate-50'')]"
  have ret: "fst (App w) = Inr App_jsx"
    by (simp add: App_def)
  have one_h: "length (filter is_heading (nodes App_jsx)) = 1"
    unfolding headings_App_jsx by simp
  have one_p: "length (filter is_paragraph (nodes App_jsx)) = 1"
    unfolding paragraphs_App_jsx by simp
  have shape: "App_jsx = Element ''div'' ?ops [Element ''div'' ?ips [?h, ?p]]"
    by (simp add: App_jsx_def)
  have order: "sibling_before is_heading is_paragraph [?h, ?p]"
    by (simp add: heading_tags_def)
  show ?thesis
    apply (rule exI [of _ App_jsx])
    apply (rule exI [of _ ?ops])
    apply (rule exI [of _ ?ips])
    apply (rule exI [of _ "[?h, ?p]"])
    apply (intro conjI)
        apply (rule ret)
       apply (rule one_h)
      apply (rule one_p)
     apply (rule shape)
    apply (rule order)
    done
qed

text \<open>
  C9: the headings of the tree returned by \<open>App\<close> are one \<^verbatim>\<open>h1\<close> element and nothing else.
\<close>

theorem App_heading_is_h1:
  "\<exists>t. fst (App w) = Inr t \<and> map tag_of (filter is_heading (nodes t)) = [Some ''h1'']"
proof -
  have "fst (App w) = Inr App_jsx"
    by (simp add: App_def)
  moreover have "map tag_of (filter is_heading (nodes App_jsx)) = [Some ''h1'']"
    unfolding headings_App_jsx by simp
  ultimately show ?thesis
    by (intro exI [of _ App_jsx] conjI)
qed

text \<open>
  C10: every element of the tree returned by \<open>App\<close> has the class attribute, holding a
  string, as its only prop, and no event handler; a text node has no prop at all.  So no
  node of the tree has a handler for any event.
\<close>

theorem App_inert:
  assumes "fst (App w) = Inr t" and "n \<in> set (nodes t)"
  shows "(if is_element n
          then map fst (props_of n) = [''className''] \<and> class_name n \<noteq> None
          else props_of n = []) \<and>
         event_handlers n = []"
proof -
  from assms(1) have "t = App_jsx"
    by (simp add: App_def)
  with assms(2) have mem: "n \<in> set (nodes App_jsx)"
    by simp
  have "list_all
      (\<lambda>n. (if is_element n
            then map fst (props_of n) = [''className''] \<and> class_name n \<noteq> None
            else props_of n = []) \<and>
           event_handlers n = [])
      (nodes App_jsx)"
    unfolding nodes_App_jsx by (simp add: App_jsx_def event_handlers_def)
  then have "\<forall>n \<in> set (nodes App_jsx).
      (if is_element n
       then map fst (props_of n) = [''className''] \<and> class_name n \<noteq> None
       else props_of n = []) \<and>
      event_handlers n = []"
    by (simp only: list_all_iff)
  from this mem show ?thesis
    by (rule bspec)
qed

theorem App_inert_witness:
  "fst (App ()) = Inr App_jsx \<and>
   Element ''h1'' [(''className'', StrVal ''text-4xl font-bold text-slate-900'')]
     [Text ''React + Vite + TypeScript''] \<in> set (nodes App_jsx) \<and>
   map fst (props_of (Element ''h1''
       [(''className'', StrVal ''text-4xl font-bold text-slate-900'')]
       [Text ''React + Vite + TypeScript''])) = [''className''] \<and>
   event_handlers (Element ''h1''
       [(''className'', StrVal ''text-4xl font-bold text-slate-900'')]
       [Text ''React + Vite + TypeScript'']) = []"
proof -
  let ?h = "Element ''h1'' [(''className'', StrVal ''text-4xl font-bold text-slate-900'')]
              [Text ''React + Vite + TypeScript'']"
  have ret: "fst (App ()) = Inr App_jsx"
    by (simp add: App_def)
  have mem: "?h \<in> set (nodes App_jsx)"
    unfolding nodes_App_jsx by simp
  from App_inert [OF ret mem] ret mem show ?thesis
    by simp
qed

end
